theory Spec2Isabelle
  imports Main "HOL-Library.Word" "HOL-Library.Multiset"
begin

unbundle bit_operations_syntax

section \<open>Simpleboot x86 loader: machine types\<close>

type_synonym u8 = "8 word"
type_synonym u16 = "16 word"
type_synonym u32 = "32 word"
type_synonym u64 = "64 word"

text \<open>
  The framebuffer description \<^verbatim>\<open>vidmode\<close> (\<^verbatim>\<open>multiboot_tag_framebuffer_t\<close>), with the
  fields the loader reads.
\<close>

record vidmode =
  framebuffer_addr :: u64
  framebuffer_pitch :: u32
  framebuffer_width :: u32
  framebuffer_height :: u32
  framebuffer_bpp :: u8
  framebuffer_red_field_position :: u8
  framebuffer_red_mask_size :: u8
  framebuffer_green_field_position :: u8
  framebuffer_green_mask_size :: u8
  framebuffer_blue_field_position :: u8
  framebuffer_blue_mask_size :: u8

section \<open>Configuration parser (\<^verbatim>\<open>fw_loadconfig\<close>, \<^verbatim>\<open>fw_loadmodules\<close>)\<close>

text \<open>
  The configuration buffer is a NUL terminated C string. A pointer into it is modelled by
  the text from that pointer up to the terminator, so \<open>[]\<close> is a pointer to the NUL,
  and of two pointers into the same buffer the one with the longer text is the lower address.
\<close>

definition c_lt :: "string \<Rightarrow> string \<Rightarrow> bool" where
  "c_lt a e = (length e < length a)"

text \<open>\<^verbatim>\<open>!memcmp(s, pat, n)\<close> with \<open>n\<close> the length of a literal without NUL.\<close>

definition memcmp0 :: "string \<Rightarrow> string \<Rightarrow> bool" where
  "memcmp0 s pat = (take (length pat) s = pat)"

definition is_digit :: "char \<Rightarrow> bool" where
  "is_digit c = (48 \<le> (of_char c :: nat) \<and> (of_char c :: nat) \<le> 57)"

text \<open>\<^verbatim>\<open>getint\<close>: decimal string to 32-bit integer, with the wrap-around of \<^verbatim>\<open>uint32_t\<close>.\<close>

fun getint_acc :: "string \<Rightarrow> u32 \<Rightarrow> string \<times> u32" where
  "getint_acc [] ret = ([], ret)"
| "getint_acc (c # ptr) ret =
     (if is_digit c then getint_acc ptr (ret * 10 + (of_nat (of_char c - 48)))
      else (c # ptr, ret))"

definition getint :: "string \<Rightarrow> string \<times> u32" where
  "getint ptr = getint_acc ptr 0"

text \<open>\<^verbatim>\<open>gethex\<close>: at most two hexadecimal digits.\<close>

definition hexval :: "char \<Rightarrow> u32 option" where
  "hexval c =
     (let n = (of_char c :: nat) in
      if 48 \<le> n \<and> n \<le> 57 then Some (of_nat (n - 48))
      else if 97 \<le> n \<and> n \<le> 102 then Some (of_nat (n - 97 + 10))
      else if 65 \<le> n \<and> n \<le> 70 then Some (of_nat (n - 65 + 10))
      else None)"

fun gethex_acc :: "nat \<Rightarrow> string \<Rightarrow> u32 \<Rightarrow> string \<times> u32" where
  "gethex_acc 0 ptr ret = (ptr, ret)"
| "gethex_acc (Suc len) [] ret = ([], ret)"
| "gethex_acc (Suc len) (c # ptr) ret =
     (case hexval c of
        Some d \<Rightarrow> gethex_acc len ptr (push_bit 4 ret + d)
      | None \<Rightarrow> (c # ptr, ret))"

definition gethex :: "string \<Rightarrow> string \<times> u32" where
  "gethex ptr = gethex_acc 2 ptr 0"

text \<open>The \<^verbatim>\<open>FB_COLOR\<close> macro, one channel and the whole.\<close>

definition fb_chan :: "u8 \<Rightarrow> u8 \<Rightarrow> u32 \<Rightarrow> u32" where
  "fb_chan msize pos v =
     push_bit (unat pos)
       (if 8 < unat msize then push_bit (unat msize - 8) v else drop_bit (8 - unat msize) v)"

definition FB_COLOR :: "vidmode \<Rightarrow> u32 \<Rightarrow> u32 \<Rightarrow> u32 \<Rightarrow> u32" where
  "FB_COLOR vid r g b =
     fb_chan (framebuffer_red_mask_size vid) (framebuffer_red_field_position vid) r OR
     fb_chan (framebuffer_green_mask_size vid) (framebuffer_green_field_position vid) g OR
     fb_chan (framebuffer_blue_mask_size vid) (framebuffer_blue_field_position vid) b"

text \<open>
  The globals the parser writes. \<open>kernel\<close> and \<open>cmdline\<close> are pointers into the buffer
  (\<open>None\<close> is \<^verbatim>\<open>NULL\<close>); \<open>menu\<close> is the local counter \<^verbatim>\<open>m\<close>; \<open>splash\<close> records the
  path arguments handed to \<^verbatim>\<open>fw_open\<close> by \<^verbatim>\<open>bootsplash\<close> lines, latest first (reading
  and drawing the image happen outside this model).
\<close>

record config =
  smp :: u32
  verbose :: u32
  fb_w :: u32
  fb_h :: u32
  fb_bpp :: u32
  fb_bg :: u32
  kernel :: "string option"
  cmdline :: "string option"
  menu :: nat
  splash :: "string list"

definition is_ws :: "char \<Rightarrow> bool" where
  "is_ws c = (c = CHR 0x0D \<or> c = CHR 0x0A \<or> c = CHR '' '' \<or> c = CHR 0x09)"

definition is_sep :: "char \<Rightarrow> bool" where
  "is_sep c = (c = CHR '' '' \<or> c = CHR 0x0D \<or> c = CHR 0x0A)"

definition is_eol :: "char \<Rightarrow> bool" where
  "is_eol c = (c = CHR 0x0D \<or> c = CHR 0x0A)"

text \<open>\<^verbatim>\<open>while(*s && (*s == '\r' || *s == '\n' || *s == ' ' || *s == '\t')) s++;\<close>\<close>

definition line_start :: "string \<Rightarrow> string" where
  "line_start s = dropWhile is_ws s"

text \<open>\<^verbatim>\<open>for(a = s; *a && *a != ' ' && *a != '\r' && *a != '\n'; a++);\<close>\<close>

definition word_end :: "string \<Rightarrow> string" where
  "word_end s = dropWhile (\<lambda>c. \<not> is_sep c) s"

text \<open>\<^verbatim>\<open>for(e = a; *e && *e != '\r' && *e != '\n'; e++);\<close>\<close>

definition line_end :: "string \<Rightarrow> string" where
  "line_end a = dropWhile (\<lambda>c. \<not> is_eol c) a"

text \<open>\<^verbatim>\<open>for(; a < e && *a == ' '; a++);\<close>\<close>

fun skip_sp :: "string \<Rightarrow> string \<Rightarrow> string" where
  "skip_sp [] e = []"
| "skip_sp (c # a) e = (if c_lt (c # a) e \<and> c = CHR '' '' then skip_sp a e else c # a)"

text \<open>
  The \<^verbatim>\<open>kernel\<close> directive's scan over the path:
  \<^verbatim>\<open>for(; a < e && *a && *a != ' ' && *a != '\r' && *a != '\n'; a++)
      if(*a == '\\' && a[1] == ' ') a++;\<close>
\<close>

fun path_end :: "string \<Rightarrow> string \<Rightarrow> string" where
  "path_end [] e = []"
| "path_end (c # a) e =
     (if c_lt (c # a) e \<and> \<not> is_sep c then
        (case a of
           c' # a' \<Rightarrow> if c = CHR 0x5C \<and> c' = CHR '' '' then path_end a' e else path_end a e
         | [] \<Rightarrow> [])
      else c # a)"

definition framebuffer_args :: "string \<Rightarrow> string \<Rightarrow> u32 \<times> u32 \<times> u32" where
  "framebuffer_args a e =
     (let (a1, w) = getint a; a2 = skip_sp a1 e;
          (a3, h) = getint a2; a4 = skip_sp a3 e;
          (a5, b) = getint a4
      in (w, h, b))"

definition fb_out_of_range :: "u32 \<times> u32 \<times> u32 \<Rightarrow> bool" where
  "fb_out_of_range whb =
     (case whb of (w, h, b) \<Rightarrow>
        w < 320 \<or> w > 65536 \<or> h < 200 \<or> h > 65536 \<or> b < 15 \<or> b > 32)"

definition do_framebuffer :: "vidmode \<Rightarrow> string \<Rightarrow> string \<Rightarrow> config \<Rightarrow> config" where
  "do_framebuffer vid a e st =
     (case framebuffer_args a e of (w, h, b) \<Rightarrow>
        if fb_out_of_range (w, h, b)
        then st\<lparr>fb_w := framebuffer_width vid, fb_h := framebuffer_height vid,
                fb_bpp := ucast (framebuffer_bpp vid)\<rparr>
        else st\<lparr>fb_w := w, fb_h := h, fb_bpp := b\<rparr>)"

definition do_bootsplash :: "vidmode \<Rightarrow> string \<Rightarrow> string \<Rightarrow> config \<Rightarrow> config" where
  "do_bootsplash vid a e st =
     (let (a', st') =
            (if (case a of c # _ \<Rightarrow> c = CHR ''#'' | [] \<Rightarrow> False) then
               (let (a1, r) = gethex (tl a); (a2, g) = gethex a1; (a3, b) = gethex a2
                in (skip_sp a3 e, st\<lparr>fb_bg := FB_COLOR vid r g b\<rparr>))
             else (a, st))
      in if c_lt a' e then st'\<lparr>splash := a' # splash st'\<rparr> else st')"

definition do_kernel :: "string \<Rightarrow> string \<Rightarrow> config \<Rightarrow> config" where
  "do_kernel a e st =
     (let a' = skip_sp (path_end a e) e
      in if (case a' of c # _ \<Rightarrow> \<not> is_eol c | [] \<Rightarrow> False)
         then st\<lparr>kernel := Some a, cmdline := Some a'\<rparr>
         else st\<lparr>kernel := Some a\<rparr>)"

text \<open>
  One turn of the \<^verbatim>\<open>for(s = conf_buf; *s;)\<close> loop of \<^verbatim>\<open>fw_loadconfig\<close>, from the line
  start \<open>s\<close> (white space already skipped). The result is the new state and whether the
  loop was left by \<^verbatim>\<open>break\<close>.
\<close>

definition config_line :: "u32 \<Rightarrow> vidmode \<Rightarrow> string \<Rightarrow> config \<Rightarrow> config \<times> bool" where
  "config_line bkp vid s st =
     (let a0 = word_end s; e = line_end a0; a = skip_sp a0 e;
          l = (if memcmp0 s ''backup'' then 1 else 0 :: u32)
      in if bkp XOR l \<noteq> 0 then (st, False)
         else
           let s = (if bkp AND l \<noteq> 0 then drop 6 s else s);
               st = (if memcmp0 s ''multicore'' then st\<lparr>smp := 1\<rparr> else st)
           in if \<not> c_lt a e then (st, False)
              else if memcmp0 s ''menuentry'' then
                (st\<lparr>menu := menu st + 1\<rparr>, menu st + 1 > 1)
              else if memcmp0 s ''verbose'' then (st\<lparr>verbose := snd (getint a)\<rparr>, False)
              else if memcmp0 s ''framebuffer'' then (do_framebuffer vid a e st, False)
              else if memcmp0 s ''bootsplash'' then (do_bootsplash vid a e st, False)
              else if c_lt a e \<and> memcmp0 s ''kernel'' then (do_kernel a e st, False)
              else (st, False))"

definition next_line :: "string \<Rightarrow> string" where
  "next_line s = line_end (word_end (line_start s))"

lemma length_next_line: "s \<noteq> [] \<Longrightarrow> length (next_line s) < length s"
proof -
  assume ne: "s \<noteq> []"
  have le1: "length (line_start s) \<le> length s"
    by (simp add: line_start_def length_dropWhile_le)
  have le2: "length (next_line s) \<le> length (word_end (line_start s))"
    by (simp add: next_line_def line_end_def length_dropWhile_le)
  show ?thesis
  proof (cases "line_start s")
    case Nil
    then show ?thesis using ne by (simp add: next_line_def word_end_def line_end_def)
  next
    case (Cons c r)
    then have "\<not> is_ws c"
      by (metis hd_dropWhile line_start_def list.sel(1) list.distinct(1))
    then have "\<not> is_sep c" by (auto simp: is_ws_def is_sep_def)
    then have "word_end (line_start s) = word_end r" by (simp add: Cons word_end_def)
    then have "length (word_end (line_start s)) \<le> length r"
      by (simp add: word_end_def length_dropWhile_le)
    then show ?thesis using le1 le2 Cons by simp
  qed
qed

function config_loop :: "u32 \<Rightarrow> vidmode \<Rightarrow> string \<Rightarrow> config \<Rightarrow> config" where
  "config_loop bkp vid s st =
     (if s = [] then st
      else case config_line bkp vid (line_start s) st of
             (st', brk) \<Rightarrow> if brk then st' else config_loop bkp vid (next_line s) st')"
  by pat_completeness auto
termination
  by (relation "measure (\<lambda>(bkp, vid, s, st). length s)") (auto simp: length_next_line)

declare config_loop.simps [simp del]

text \<open>
  The part of \<^verbatim>\<open>fw_loadconfig\<close> after the file is read: the defaults, then the loop.
\<close>

definition fw_loadconfig :: "u32 \<Rightarrow> vidmode \<Rightarrow> string \<Rightarrow> config \<Rightarrow> config" where
  "fw_loadconfig bkp vid conf_buf st =
     config_loop bkp vid conf_buf
       (st\<lparr>kernel := None, fb_w := framebuffer_width vid, fb_h := framebuffer_height vid,
           fb_bpp := ucast (framebuffer_bpp vid), fb_bg := 0, smp := 0, menu := 0\<rparr>)"

text \<open>
  The line loop of \<^verbatim>\<open>fw_loadmodules\<close>, with no key pressed (\<^verbatim>\<open>rq = 0\<close>): the result is
  the list of path arguments handed to \<^verbatim>\<open>fw_open\<close> by \<^verbatim>\<open>module\<close> lines, in order.
\<close>

definition module_line :: "u32 \<Rightarrow> string \<Rightarrow> string list" where
  "module_line bkp s =
     (let a0 = word_end s; e = line_end a0; a = skip_sp a0 e;
          l = (if memcmp0 s ''backup'' then 1 else 0 :: u32)
      in if \<not> c_lt a e \<or> bkp XOR l \<noteq> 0 then []
         else
           let s = (if bkp AND l \<noteq> 0 then drop 6 s else s)
           in if memcmp0 s ''module'' then [a] else [])"

function module_loop :: "u32 \<Rightarrow> string \<Rightarrow> string list" where
  "module_loop bkp s =
     (if s = [] then []
      else module_line bkp (line_start s) @ module_loop bkp (next_line s))"
  by pat_completeness auto
termination
  by (relation "measure (\<lambda>(bkp, s). length s)") (auto simp: length_next_line)

declare module_loop.simps [simp del]

section \<open>Memory map and top of RAM (\<^verbatim>\<open>sort_map\<close>, \<^verbatim>\<open>efi_memmap\<close>, \<^verbatim>\<open>fw_loadsetup\<close>)\<close>

text \<open>\<^verbatim>\<open>multiboot_mmap_entry_t\<close>; the type \<^verbatim>\<open>MULTIBOOT_MEMORY_AVAILABLE\<close> is 1.\<close>

record mmap_entry =
  base_addr :: u64
  length_m :: u64
  type_m :: u32
  reserved_m :: u32

definition MULTIBOOT_MEMORY_AVAILABLE :: u32 where
  "MULTIBOOT_MEMORY_AVAILABLE = 1"

text \<open>
  The inner loop of \<^verbatim>\<open>sort_map\<close>:
  \<^verbatim>\<open>for(j = i; j > 0 && dst[j].base_addr < dst[j - 1].base_addr; j--)\<close> swaps
  \<^verbatim>\<open>dst[j - 1]\<close> and \<^verbatim>\<open>dst[j]\<close>. The index stays below the length of the list.
\<close>

fun sift_down :: "nat \<Rightarrow> mmap_entry list \<Rightarrow> mmap_entry list" where
  "sift_down 0 dst = dst"
| "sift_down (Suc j) dst =
     (if base_addr (dst ! Suc j) < base_addr (dst ! j)
      then sift_down j (dst[j := dst ! Suc j, Suc j := dst ! j])
      else dst)"

text \<open>
  The outer loop \<^verbatim>\<open>for(i = 1; i < num; i++)\<close> with \<open>num\<close> the number of entries: after
  the entry \<open>i\<close> is moved into place, the entry then at index \<open>i\<close> is compared with \<^verbatim>\<open>ram\<close>.
\<close>

function sort_map_from :: "nat \<Rightarrow> mmap_entry list \<Rightarrow> u64 \<Rightarrow> mmap_entry list \<times> u64" where
  "sort_map_from i dst ram =
     (if i < length dst then
        (let dst' = sift_down i dst;
             top = base_addr (dst' ! i) + length_m (dst' ! i);
             ram' = (if type_m (dst' ! i) = MULTIBOOT_MEMORY_AVAILABLE \<and> top > ram
                     then top else ram)
         in sort_map_from (Suc i) dst' ram')
      else (dst, ram))"
  by pat_completeness auto

lemma length_sift_down: "length (sift_down j dst) = length dst"
  by (induction j dst rule: sift_down.induct) simp_all

termination sort_map_from
  by (relation "measure (\<lambda>(i, dst, ram). length dst - i)") (auto simp: length_sift_down)

declare sort_map_from.simps [simp del]

definition sort_map :: "mmap_entry list \<Rightarrow> u64 \<Rightarrow> mmap_entry list \<times> u64" where
  "sort_map dst ram = sort_map_from 1 dst ram"

text \<open>
  \<^verbatim>\<open>efi_memory_descriptor_t\<close> and the branch of \<^verbatim>\<open>efi_memmap\<close> taken for a \<^verbatim>\<open>NULL\<close>
  destination, over the descriptors the firmware returned (\<open>None\<close>: a firmware call failed
  and \<^verbatim>\<open>ram\<close> is left as it is). \<^verbatim>\<open>EfiConventionalMemory\<close> is 7.
\<close>

record efi_memory_descriptor =
  Type :: u32
  PhysicalStart :: u64
  NumberOfPages :: u64

definition EfiConventionalMemory :: u32 where
  "EfiConventionalMemory = 7"

fun efi_top_loop :: "efi_memory_descriptor list \<Rightarrow> u64 \<Rightarrow> u64" where
  "efi_top_loop [] ram = ram"
| "efi_top_loop (mement # rest) ram =
     (let top = PhysicalStart mement + push_bit 12 (NumberOfPages mement)
      in efi_top_loop rest
           (if Type mement = EfiConventionalMemory \<and> top > ram then top else ram))"

definition efi_memmap_null :: "efi_memory_descriptor list option \<Rightarrow> u64 \<Rightarrow> u64" where
  "efi_memmap_null memory_map ram =
     (case memory_map of None \<Rightarrow> ram | Some ds \<Rightarrow> efi_top_loop ds ram)"

text \<open>
  The conversion of \<^verbatim>\<open>efi_memmap\<close> for a destination buffer: the Multiboot type of an EFI
  descriptor (\<^verbatim>\<open>EfiReservedMemoryType\<close> 0, \<^verbatim>\<open>EfiRuntimeServicesCode\<close> 5,
  \<^verbatim>\<open>EfiUnusableMemory\<close> 8, \<^verbatim>\<open>EfiACPIReclaimMemory\<close> 9, \<^verbatim>\<open>EfiACPIMemoryNVS\<close> 10).
\<close>

definition efi_to_mmap :: "efi_memory_descriptor \<Rightarrow> mmap_entry" where
  "efi_to_mmap mement =
     \<lparr>base_addr = PhysicalStart mement,
      length_m = push_bit 12 (NumberOfPages mement),
      type_m = (if (Type mement > 0 \<and> Type mement < 5) \<or> Type mement = EfiConventionalMemory
                then MULTIBOOT_MEMORY_AVAILABLE
                else if Type mement = 8 then 5
                else if Type mement = 9 then 3
                else if Type mement = 10 then 4 else 2),
      reserved_m = Type mement\<rparr>"

text \<open>
  The memory-map step of \<^verbatim>\<open>fw_loadsetup\<close> with a tag buffer present: on BIOS the E820
  entries are sorted into the tag (and \<^verbatim>\<open>ram\<close> raised on the way), on UEFI only \<^verbatim>\<open>ram\<close> is
  determined; then \<^verbatim>\<open>ram &= ~(2 * 1024 * 1024 - 1)\<close>.
\<close>

datatype firmware_map =
  Bios_map "mmap_entry list"
| Efi_map "efi_memory_descriptor list option"

definition fw_loadsetup_ram :: "firmware_map \<Rightarrow> u64 \<Rightarrow> u64" where
  "fw_loadsetup_ram fm ram =
     (case fm of
        Bios_map es \<Rightarrow> snd (sort_map es ram)
      | Efi_map ds \<Rightarrow> efi_memmap_null ds ram) AND NOT (2 * 1024 * 1024 - 1)"

text \<open>
  The spec's words: the largest \<open>base + length\<close> over the entries of type Available (0 when
  there is none), rounded down to 2 MiB.
\<close>

definition entry_top :: "mmap_entry \<Rightarrow> u64" where
  "entry_top e = base_addr e + length_m e"

definition is_available :: "mmap_entry \<Rightarrow> bool" where
  "is_available e = (type_m e = MULTIBOOT_MEMORY_AVAILABLE)"

definition spec_top_of_ram :: "mmap_entry list \<Rightarrow> u64" where
  "spec_top_of_ram es =
     Max (insert 0 (entry_top ` set (filter is_available es))) AND NOT (2 * 1024 * 1024 - 1)"

text \<open>
  The same with the value \<^verbatim>\<open>ram\<close> has on entry taken into account: the loops only ever
  raise \<^verbatim>\<open>ram\<close>, and it is 0 only on the first pass.
\<close>

definition spec_top_from :: "u64 \<Rightarrow> mmap_entry list \<Rightarrow> u64" where
  "spec_top_from ram es =
     Max (insert ram (entry_top ` set (filter is_available es))) AND NOT (2 * 1024 * 1024 - 1)"

text \<open>
  What the outer loop of \<^verbatim>\<open>sort_map\<close> keeps at index \<open>i\<close>: the entries from \<open>i\<close> on are
  still those the firmware returned, the entries before are a rearrangement of the first
  \<open>i\<close> returned ones.
\<close>

definition sort_inv :: "mmap_entry list \<Rightarrow> nat \<Rightarrow> mmap_entry list \<Rightarrow> bool" where
  "sort_inv es i dst =
     (length dst = length es \<and> drop i dst = drop i es \<and> mset (take i dst) = mset (take i es))"

section \<open>Memory, drive and firmware\<close>

text \<open>
  Physical memory is an array of bytes indexed by 64-bit addresses; multi-byte values are
  little-endian. The page tables, the Linux zero page and everything the loader reads from
  a file live in this memory, so that a segment read over any of them shows. The loader's
  own globals (\<^verbatim>\<open>kernel_buf\<close>, \<^verbatim>\<open>data\<close>, \<^verbatim>\<open>fat\<close>, the memory map) are kept apart from it: on
  BIOS the loader and its tables lie below 0x40000, where \<^verbatim>\<open>fw_loadseg\<close> refuses to load,
  and on UEFI in pages the firmware does not hand out again.
\<close>

type_synonym memory = "u64 \<Rightarrow> u8"

fun le_word :: "u8 list \<Rightarrow> 'a::len word" where
  "le_word [] = 0"
| "le_word (b # bs) = ucast b OR push_bit 8 (le_word bs)"

definition rd16 :: "memory \<Rightarrow> u64 \<Rightarrow> u16" where
  "rd16 m a = le_word [m a, m (a + 1)]"

definition rd32 :: "memory \<Rightarrow> u64 \<Rightarrow> u32" where
  "rd32 m a = le_word [m a, m (a + 1), m (a + 2), m (a + 3)]"

definition rd64 :: "memory \<Rightarrow> u64 \<Rightarrow> u64" where
  "rd64 m a = le_word [m a, m (a + 1), m (a + 2), m (a + 3), m (a + 4), m (a + 5), m (a + 6),
                       m (a + 7)]"

text \<open>The bytes \<open>bs\<close> stored from address \<open>a\<close> on.\<close>

definition put_bytes :: "u64 \<Rightarrow> u8 list \<Rightarrow> memory \<Rightarrow> memory" where
  "put_bytes a bs m = (\<lambda>x. if unat (x - a) < length bs then bs ! unat (x - a) else m x)"

definition wr16 :: "u64 \<Rightarrow> u16 \<Rightarrow> memory \<Rightarrow> memory" where
  "wr16 a v = put_bytes a [ucast v, ucast (drop_bit 8 v)]"

definition wr32 :: "u64 \<Rightarrow> u32 \<Rightarrow> memory \<Rightarrow> memory" where
  "wr32 a v = put_bytes a [ucast v, ucast (drop_bit 8 v), ucast (drop_bit 16 v),
                           ucast (drop_bit 24 v)]"

definition wr64 :: "u64 \<Rightarrow> u64 \<Rightarrow> memory \<Rightarrow> memory" where
  "wr64 a v = put_bytes a [ucast v, ucast (drop_bit 8 v), ucast (drop_bit 16 v),
                           ucast (drop_bit 24 v), ucast (drop_bit 32 v), ucast (drop_bit 40 v),
                           ucast (drop_bit 48 v), ucast (drop_bit 56 v)]"

text \<open>\<^verbatim>\<open>memset(dst, c, n)\<close> (\<^verbatim>\<open>repnz stosb\<close>, with a 32-bit count).\<close>

definition memset :: "u64 \<Rightarrow> u8 \<Rightarrow> u32 \<Rightarrow> memory \<Rightarrow> memory" where
  "memset dst c n m = (\<lambda>x. if x - dst < ucast n then c else m x)"

text \<open>
  \<^verbatim>\<open>memcpy(dst, src, n)\<close> from a buffer of the loader (\<open>src\<close> gives its bytes from the source
  pointer on) into memory, and within memory (\<^verbatim>\<open>repnz movsb\<close>: a forward copy, here only
  used with \<open>dst\<close> below \<open>src\<close>).
\<close>

definition memcpy_in :: "u64 \<Rightarrow> (nat \<Rightarrow> u8) \<Rightarrow> u32 \<Rightarrow> memory \<Rightarrow> memory" where
  "memcpy_in dst src n m = (\<lambda>x. if x - dst < ucast n then src (unat (x - dst)) else m x)"

definition memcpy_down :: "u64 \<Rightarrow> u64 \<Rightarrow> u32 \<Rightarrow> memory \<Rightarrow> memory" where
  "memcpy_down dst src n m = (\<lambda>x. if x - dst < ucast n then m (src + (x - dst)) else m x)"

text \<open>Little-endian values in a buffer of the loader (bytes indexed from 0).\<close>

definition buf16 :: "(nat \<Rightarrow> u8) \<Rightarrow> nat \<Rightarrow> u16" where
  "buf16 b i = le_word [b i, b (i + 1)]"

definition buf32 :: "(nat \<Rightarrow> u8) \<Rightarrow> nat \<Rightarrow> u32" where
  "buf32 b i = le_word [b i, b (i + 1), b (i + 2), b (i + 3)]"

definition buf64 :: "(nat \<Rightarrow> u8) \<Rightarrow> nat \<Rightarrow> u64" where
  "buf64 b i = le_word [b i, b (i + 1), b (i + 2), b (i + 3), b (i + 4), b (i + 5), b (i + 6),
                        b (i + 7)]"

text \<open>
  \<^verbatim>\<open>FB\<close>, the FOSSBIOS services that file reading uses: whether there is an input service
  and a storage service.
\<close>

record fossbios =
  has_input :: bool
  has_storage :: bool

text \<open>
  The UEFI file protocol behind the handle \<^verbatim>\<open>f\<close>: the bytes of the open file, the
  position, and whether the device fails (then every call returns an error).
\<close>

record efi_file =
  f_data :: "u8 list"
  f_pos :: u64
  f_error :: bool

text \<open>
  The loader's globals that reading, mapping and loading use, and its surroundings.
  \<open>ST\<close> tells whether the EFI system table pointer is set and \<open>FB\<close> holds the FOSSBIOS
  services (\<open>None\<close> for \<^verbatim>\<open>NULL\<close>); \<open>root_dir\<close>, \<open>pt\<close> and \<open>zero_page\<close> are addresses (0 for
  \<^verbatim>\<open>NULL\<close>); \<open>efi_f\<close> is the file handle \<^verbatim>\<open>f\<close>; \<open>spc\<close> is \<^verbatim>\<open>bpb->spc\<close>; \<open>memmap\<close> is
  the array of \<^verbatim>\<open>num_memmap\<close> entries (empty when \<^verbatim>\<open>memmap\<close> is \<^verbatim>\<open>NULL\<close>); \<open>conf\<close> holds the
  globals that the configuration parser sets.

  The surroundings are oracles. \<open>disk lba\<close> is the sector that the boot drive delivers for
  \<open>lba\<close>, and \<open>ata_pio\<close> tells whether \<^verbatim>\<open>bios_loadsec\<close> talks to the drive itself or goes
  through the BIOS and its buffer at 0x600. \<open>keys\<close> are the values that the coming
  keyboard polls yield: the byte read from port 0x64 on legacy BIOS, the result of
  \<^verbatim>\<open>haskey\<close> on FOSSBIOS, the \<^verbatim>\<open>UnicodeChar\<close> of \<^verbatim>\<open>ReadKeyStroke\<close> on UEFI (0 when it reports
  an error); with none left a poll yields 0. \<open>efi_pages\<close> are the results of the coming
  one-page \<^verbatim>\<open>AllocatePages\<close> calls of \<^verbatim>\<open>efi_alloc\<close> (none left: an error), \<open>efi_any\<close> those
  of the coming other \<^verbatim>\<open>AllocateAnyPages\<close> calls, \<open>efi_at addr n\<close> tells whether
  \<^verbatim>\<open>AllocateAddress\<close> grants \<open>n\<close> pages at \<open>addr\<close>, and \<open>efi_max addr n\<close> is what
  \<^verbatim>\<open>AllocateMaxAddress\<close> grants for \<open>n\<close> pages at or below \<open>addr\<close> (\<open>None\<close>: an error).
\<close>

record loader =
  ST :: bool
  FB :: "fossbios option"
  root_dir :: u64
  bkp :: u32
  rq :: u32
  pt :: u64
  file_buf :: u64
  ram :: u64
  memmap :: "mmap_entry list"
  file_size :: u64
  file_clu :: u32
  spc :: u8
  fat_lba :: u64
  data_lba :: u64
  fat_cache :: u32
  fat :: "nat \<Rightarrow> u32"
  data :: "nat \<Rightarrow> u8"
  kernel_buf :: "nat \<Rightarrow> u8"
  kernel_mode :: u8
  kernel_entry :: u64
  zero_page :: u64
  vidmode :: vidmode
  conf :: config
  efi_f :: "efi_file option"
  mem :: memory
  disk :: "u64 \<Rightarrow> nat \<Rightarrow> u8"
  ata_pio :: bool
  keys :: "u16 list"
  efi_pages :: "u64 list"
  efi_any :: "u64 list"
  efi_at :: "u64 \<Rightarrow> u64 \<Rightarrow> bool"
  efi_max :: "u64 \<Rightarrow> u64 \<Rightarrow> u64 option"

section \<open>Reading a file (\<^verbatim>\<open>fw_read\<close>)\<close>

text \<open>
  \<^verbatim>\<open>pb_init\<close>: the value it returns, the number of bytes to read for one pixel of the
  progress bar. \<open>None\<close> is the division by zero that a framebuffer of width 4 leads to.
  Drawing the bar (here and in \<^verbatim>\<open>pb_draw\<close>, \<^verbatim>\<open>pb_fini\<close>) writes to the framebuffer only,
  which is not part of \<open>mem\<close>.
\<close>

definition pb_init :: "u64 \<Rightarrow> loader \<Rightarrow> u64 option" where
  "pb_init sz st =
     (let pb_m = (ucast (drop_bit 9 sz + 1) :: u32);
          w = framebuffer_width (vidmode st) - 4
      in if framebuffer_addr (vidmode st) = 0 \<or> sz = 0 \<or> pb_m < w then Some 0
         else if w = 0 then None
         else Some (sz div ucast w))"

text \<open>One poll of the keyboard.\<close>

definition poll_key :: "loader \<Rightarrow> u16 \<times> loader" where
  "poll_key st = (case keys st of [] \<Rightarrow> (0, st) | k # ks \<Rightarrow> (k, st\<lparr>keys := ks\<rparr>))"

text \<open>
  Where a sector is delivered: memory at an address, the loader's sector buffer \<^verbatim>\<open>data\<close>,
  or \<^verbatim>\<open>&fat[n]\<close> (128 entries of 32 bits).
\<close>

datatype buffer = Mem u64 | Data | Fat nat

definition deliver :: "buffer \<Rightarrow> (nat \<Rightarrow> u8) \<Rightarrow> loader \<Rightarrow> loader" where
  "deliver dst sec st =
     (case dst of
        Mem a \<Rightarrow> st\<lparr>mem := memcpy_in a sec 512 (mem st)\<rparr>
      | Data \<Rightarrow> st\<lparr>data := (\<lambda>i. if i < 512 then sec i else data st i)\<rparr>
      | Fat n \<Rightarrow> st\<lparr>fat := (\<lambda>k. if n \<le> k \<and> k < n + 128 then buf32 sec (4 * (k - n))
                                 else fat st k)\<rparr>)"

text \<open>
  \<^verbatim>\<open>bios_loadsec\<close>: the request block at 0x500 is filled in, then the sector arrives at
  \<open>dst\<close>, either straight from the drive or through the BIOS buffer at 0x600.
\<close>

definition bios_loadsec :: "u64 \<Rightarrow> buffer \<Rightarrow> loader \<Rightarrow> loader" where
  "bios_loadsec lba dst st =
     (if ST st \<or> dst = Mem 0 then st
      else
        let st1 = st\<lparr>mem := wr64 0x508 lba (wr32 0x504 0x600 (wr16 0x502 1 (mem st)))\<rparr>;
            st2 = (if ata_pio st1 then st1 else deliver (Mem 0x600) (disk st lba) st1)
        in deliver dst (disk st lba) st2)"

definition fw_loadsec :: "u64 \<Rightarrow> buffer \<Rightarrow> loader \<Rightarrow> loader" where
  "fw_loadsec lba dst st =
     (case FB st of
        Some fb \<Rightarrow>
          let st1 = (if bkp st = 0 \<and> rq st = 0 \<and> has_input fb then
                       (case poll_key st of (k, st') \<Rightarrow> if k \<noteq> 0 then st'\<lparr>rq := 1\<rparr> else st')
                     else st)
          in if has_storage fb then deliver dst (disk st1 lba) st1 else st1
      | None \<Rightarrow>
          let st1 = (if bkp st = 0 \<and> rq st = 0 then
                       (case poll_key st of (k, st') \<Rightarrow>
                          let al = (ucast k :: u8)
                          in if al \<noteq> 0xFF \<and> al AND 1 \<noteq> 0 then st'\<lparr>rq := 1\<rparr> else st')
                     else st)
          in bios_loadsec lba dst st1)"

text \<open>
  \<^verbatim>\<open>bios_nextclu\<close>: the FAT entry of \<open>clu\<close>, through the cache of 1024 entries, which is
  filled by eight sector reads when \<open>clu\<close> is outside of it.
\<close>

definition bios_nextclu :: "u32 \<Rightarrow> loader \<Rightarrow> u32 \<times> loader" where
  "bios_nextclu clu st =
     (if ST st \<or> clu < 2 \<or> clu \<ge> 0x0FFFFFF8 then (0, st)
      else
        let st1 = (if clu < fat_cache st \<or> clu > fat_cache st + 1023 then
                     foldl (\<lambda>s i. fw_loadsec (fat_lba s + ucast (drop_bit 7 (fat_cache s)) + of_nat i)
                                     (Fat (i * 128)) s)
                       (st\<lparr>fat_cache := clu AND NOT 1023\<rparr>) [0, 1, 2, 3, 4, 5, 6, 7]
                   else st);
            c = fat st1 (unat (clu - fat_cache st1))
        in (if c < 2 \<or> c \<ge> 0x0FFFFFF8 then 0 else c, st1))"

text \<open>\<^verbatim>\<open>while(nc-- && clu) { clu = bios_nextclu(clu); }\<close>\<close>

function skip_clusters :: "u32 \<Rightarrow> u32 \<Rightarrow> loader \<Rightarrow> u32 \<times> loader" where
  "skip_clusters nc clu st =
     (if nc \<noteq> 0 \<and> clu \<noteq> 0 then
        (case bios_nextclu clu st of (c, st') \<Rightarrow> skip_clusters (nc - 1) c st')
      else (clu, st))"
  by pat_completeness auto
termination
  by (relation "measure (\<lambda>(nc, clu, st). unat nc)") (auto simp: unat_minus_one unat_gt_0)

declare skip_clusters.simps [simp del]

text \<open>
  The \<^verbatim>\<open>while(rem && !rq)\<close> loop of \<^verbatim>\<open>bios_read\<close>; the result is \<open>rem\<close> and the state when
  the loop is left. In the calls that \<^verbatim>\<open>bios_read\<close> makes \<open>os + rs\<close> is at most 512, so the
  copy out of \<^verbatim>\<open>data\<close> stays within its 512 bytes.
\<close>

function bios_read_loop ::
  "u64 \<Rightarrow> u8 \<Rightarrow> u64 \<Rightarrow> u32 \<Rightarrow> u32 \<Rightarrow> u32 \<Rightarrow> u64 \<Rightarrow> loader \<Rightarrow> u64 \<times> loader" where
  "bios_read_loop rem secleft lba clu rs os buf st =
     (if rem \<noteq> 0 \<and> rq st = 0 then
        (case (if secleft \<noteq> 0 then Some (secleft - 1, lba + 1, clu, st)
               else if clu = 0 then None
               else (case bios_nextclu clu st of
                       (c, st') \<Rightarrow>
                         Some (spc st - 1, ucast (clu * ucast (spc st)) + data_lba st, c, st'))) of
           None \<Rightarrow> (rem, st)
         | Some (secleft', lba', clu', st1) \<Rightarrow>
             let rs' = (if ucast rs > rem then ucast rem else rs);
                 st2 = (if rs' < 512 then
                          (let s = fw_loadsec lba' Data st1
                           in s\<lparr>mem := memcpy_in buf (\<lambda>i. data s (unat os + i)) rs' (mem s)\<rparr>)
                        else
                          (let s = fw_loadsec lba' (Mem buf) st1
                           in if os \<noteq> 0
                              then s\<lparr>mem := memcpy_down buf (buf + ucast os) rs' (mem s)\<rparr>
                              else s))
             in bios_read_loop (rem - ucast rs') secleft' lba' clu' 512 0 (buf + ucast rs') st2)
      else (rem, st))"
  by pat_completeness auto

lemma unat_ucast_32_64: "unat (ucast (x :: u32) :: u64) = unat x"
proof -
  have "unat x < 2 ^ 32" using unsigned_less[of x] by simp
  then have "unat x < 2 ^ 64" by simp
  then show ?thesis by (simp add: unsigned_ucast_eq take_bit_nat_eq_self)
qed

lemma ucast_ucast_below:
  fixes rem :: u64 and rs :: u32
  assumes "(ucast rs :: u64) > rem" shows "(ucast (ucast rem :: u32) :: u64) = rem"
proof -
  have "unat rem < unat rs" using assms by (simp add: word_less_nat_alt unat_ucast_32_64)
  moreover have "unat rs < 2 ^ 32" using unsigned_less[of rs] by simp
  ultimately have "unat rem < 2 ^ 32" by simp
  then show ?thesis
    by (simp add: word_eq_iff_unsigned[where ?'a = nat] unsigned_ucast_eq unsigned_take_bit_eq
        take_bit_nat_eq_self)
qed

lemma bios_read_loop_decreases:
  fixes rem :: u64 and rs :: u32
  assumes "rem \<noteq> 0"
  shows "2 * unat (rem - ucast (if ucast rs > rem then ucast rem else rs))
          < 2 * unat rem + (if rs = 0 then 1 else 0)"
proof (cases "(ucast rs :: u64) > rem")
  case True
  then have "(ucast (ucast rem :: u32) :: u64) = rem" by (rule ucast_ucast_below)
  then show ?thesis using True assms by (simp add: unat_gt_0)
next
  case big: False
  then have le: "unat rs \<le> unat rem" by (simp add: word_le_nat_alt not_less unat_ucast_32_64)
  show ?thesis
  proof (cases "rs = 0")
    case True
    then show ?thesis by simp
  next
    case False
    then have "unat rs \<noteq> 0" by (simp add: unat_eq_0)
    moreover have "unat (rem - ucast rs) = unat rem - unat rs"
      using le by (simp add: unat_sub word_le_nat_alt unat_ucast_32_64)
    ultimately show ?thesis using le False big by simp
  qed
qed

termination bios_read_loop
  apply (relation "measure (\<lambda>(rem, secleft, lba, clu, rs, os, buf, st).
                     2 * unat rem + (if rs = 0 then 1 else 0))")
   apply simp
  using bios_read_loop_decreases apply (simp split: if_splits)
  done

declare bios_read_loop.simps [simp del]

text \<open>
  \<^verbatim>\<open>bios_read\<close>: the number of bytes it reports and the state. \<open>None\<close> is a division by
  zero, in \<^verbatim>\<open>pb_init\<close> or by \<^verbatim>\<open>bpb->spc << 9\<close>.
\<close>

definition bios_read :: "u64 \<Rightarrow> u64 \<Rightarrow> u64 \<Rightarrow> loader \<Rightarrow> (u64 \<times> loader) option" where
  "bios_read offs sz buf st =
     (if ST st \<or> file_clu st < 2 \<or> offs \<ge> file_size st \<or> sz = 0 \<or> buf = 0 then Some (0, st)
      else
        let sz = (if offs + sz > file_size st then file_size st - offs else sz) in
        case pb_init sz st of
          None \<Rightarrow> None
        | Some blksize \<Rightarrow>
            if offs \<noteq> 0 then
              (if spc st = 0 then None
               else
                 let cs = (push_bit 9 (ucast (spc st)) :: u64);
                     nc = (ucast (offs div cs) :: u32);
                     o' = offs mod cs;
                     ns = (ucast (drop_bit 9 o') :: u32);
                     os = (ucast (o' AND 0x1ff) :: u32);
                     rs = 512 - os;
                     (clu, st1) = (if nc \<noteq> 0 then skip_clusters nc (file_clu st) st
                                   else (file_clu st, st))
                 in if nc \<noteq> 0 \<and> clu = 0 then Some (0, st1)
                    else
                      let secleft = (ucast (ucast (spc st) - ns - 1 :: u32) :: u8);
                          lba = ucast (clu * ucast (spc st) + ns - 1 :: u32) + data_lba st
                      in case bios_read_loop sz secleft lba clu rs os buf st1 of
                           (rem, st2) \<Rightarrow> Some (sz - rem, st2))
            else
              (case bios_read_loop sz 0 0 (file_clu st) 512 0 buf st of
                 (rem, st2) \<Rightarrow> Some (sz - rem, st2)))"

text \<open>
  The file protocol of the firmware. \<^verbatim>\<open>SetPosition\<close> gives an error or the file at the new
  position. \<^verbatim>\<open>Read\<close> of \<open>n\<close> bytes to \<open>buf\<close> gives an error, or the number of bytes read (cut
  at the end of the file), the file and the memory.
\<close>

definition SetPosition :: "u64 \<Rightarrow> efi_file \<Rightarrow> efi_file option" where
  "SetPosition offs fl = (if f_error fl then None else Some (fl\<lparr>f_pos := offs\<rparr>))"

definition Read :: "u64 \<Rightarrow> u64 \<Rightarrow> efi_file \<Rightarrow> memory \<Rightarrow> (u64 \<times> efi_file \<times> memory) option" where
  "Read n buf fl m =
     (if f_error fl \<or> length (f_data fl) < unat (f_pos fl) then None
      else
        let k = min (unat n) (length (f_data fl) - unat (f_pos fl))
        in Some (of_nat k, fl\<lparr>f_pos := f_pos fl + of_nat k\<rparr>,
                 put_bytes buf (take k (drop (unat (f_pos fl)) (f_data fl))) m))"

text \<open>
  \<^verbatim>\<open>status = f->Read(f, &n, buf)\<close> on the loader state: whether the status is an error, the
  new value of \<open>n\<close>, and the state.
\<close>

definition efi_f_read :: "u64 \<Rightarrow> u64 \<Rightarrow> loader \<Rightarrow> bool \<times> u64 \<times> loader" where
  "efi_f_read n buf st =
     (case efi_f st of
        None \<Rightarrow> (True, n, st)
      | Some fl \<Rightarrow>
          (case Read n buf fl (mem st) of
             None \<Rightarrow> (True, n, st)
           | Some (k, fl', m') \<Rightarrow> (False, k, st\<lparr>efi_f := Some fl', mem := m'\<rparr>)))"

text \<open>The check for user interruption in \<^verbatim>\<open>efi_read\<close>.\<close>

definition efi_poll :: "loader \<Rightarrow> loader" where
  "efi_poll st =
     (if bkp st = 0 \<and> rq st = 0 then
        (case poll_key st of (k, st') \<Rightarrow> if k \<noteq> 0 then st'\<lparr>rq := 1\<rparr> else st')
      else st)"

text \<open>
  The loop of \<^verbatim>\<open>efi_read\<close> that reads \<open>blksize\<close> bytes at a time. It need not stop (a read
  that delivers nothing does not advance \<open>curr\<close>), so it runs on fuel: \<open>None\<close> is fuel
  exhausted. The result is whether the last status is an error, and the state.
\<close>

fun efi_read_loop ::
  "nat \<Rightarrow> u64 \<Rightarrow> u64 \<Rightarrow> u64 \<Rightarrow> u64 \<Rightarrow> bool \<Rightarrow> loader \<Rightarrow> (bool \<times> loader) option" where
  "efi_read_loop fuel curr' blksize sz buf err st =
     (if \<not> err \<and> curr' < sz then
        (case fuel of
           0 \<Rightarrow> None
         | Suc fuel' \<Rightarrow>
             (let st1 = efi_poll st;
                  blksize1 = (if sz - curr' < blksize then sz - curr' else blksize)
              in case efi_f_read blksize1 (buf + curr') st1 of
                   (err', blksize2, st2) \<Rightarrow>
                     efi_read_loop fuel' (curr' + blksize2) blksize2 sz buf err' st2))
      else Some (err, st))"

declare efi_read_loop.simps [simp del]

text \<open>
  \<^verbatim>\<open>efi_read\<close>: the number of bytes it reports and the state; \<open>None\<close> when it does not
  return (fuel exhausted, or the division by zero in \<^verbatim>\<open>pb_init\<close>).
\<close>

definition efi_read :: "nat \<Rightarrow> u64 \<Rightarrow> u64 \<Rightarrow> u64 \<Rightarrow> loader \<Rightarrow> (u64 \<times> loader) option" where
  "efi_read fuel offs sz buf st =
     (case efi_f st of
        None \<Rightarrow> Some (0, st)
      | Some fl \<Rightarrow>
          if \<not> ST st \<or> offs \<ge> file_size st \<or> sz = 0 \<or> buf = 0 then Some (0, st)
          else
            let sz = (if offs + sz > file_size st then file_size st - offs else sz) in
            case SetPosition offs fl of
              None \<Rightarrow> Some (0, st)
            | Some fl1 \<Rightarrow>
                let st1 = st\<lparr>efi_f := Some fl1\<rparr> in
                case pb_init sz st1 of
                  None \<Rightarrow> None
                | Some blksize \<Rightarrow>
                    if blksize \<noteq> 0 then
                      (case efi_read_loop fuel 0 blksize sz buf False st1 of
                         None \<Rightarrow> None
                       | Some (err, st2) \<Rightarrow> Some (if err then 0 else sz, st2))
                    else
                      (case efi_f_read sz buf (efi_poll st1) of
                         (err, n, st2) \<Rightarrow> Some (if err then 0 else n, st2)))"

definition fw_read :: "nat \<Rightarrow> u64 \<Rightarrow> u64 \<Rightarrow> u64 \<Rightarrow> loader \<Rightarrow> (u64 \<times> loader) option" where
  "fw_read fuel offs sz buf st =
     (if root_dir st = 0 \<or> offs \<ge> file_size st \<or> sz = 0 \<or> buf = 0 then Some (0, st)
      else if ST st then efi_read fuel offs sz buf st
      else bios_read offs sz buf st)"

section \<open>Page-map builder (\<^verbatim>\<open>fw_map\<close>) and segment loader (\<^verbatim>\<open>fw_loadseg\<close>)\<close>

text \<open>
  \<^verbatim>\<open>bios_alloc\<close> and \<^verbatim>\<open>efi_alloc\<close>: a zeroed page, from \<^verbatim>\<open>file_buf\<close> or from the firmware
  (0: the firmware refused).
\<close>

definition bios_alloc :: "loader \<Rightarrow> u64 \<times> loader" where
  "bios_alloc st =
     (let page = file_buf st
      in (page, st\<lparr>file_buf := file_buf st + 4096, mem := memset page 0 4096 (mem st)\<rparr>))"

definition efi_alloc :: "loader \<Rightarrow> u64 \<times> loader" where
  "efi_alloc st =
     (case efi_pages st of
        [] \<Rightarrow> (0, st)
      | page # rest \<Rightarrow> (page, st\<lparr>efi_pages := rest, mem := memset page 0 4096 (mem st)\<rparr>))"

text \<open>
  One level of the walk:
  \<^verbatim>\<open>if(cond) { if(!(*ptr = (ST ? efi_alloc() : bios_alloc()))) return 0; else *ptr |= 3; }\<close>.
  \<open>Inl\<close> is the \<^verbatim>\<open>return 0\<close>, with the state it leaves.
\<close>

definition map_level :: "bool \<Rightarrow> u64 \<Rightarrow> loader \<Rightarrow> loader + loader" where
  "map_level missing ptr st =
     (if missing then
        (let (page, st1) = (if ST st then efi_alloc st else bios_alloc st);
             st2 = st1\<lparr>mem := wr64 ptr page (mem st1)\<rparr>
         in if page = 0 then Inl st2
            else Inr (st2\<lparr>mem := wr64 ptr (rd64 (mem st2) ptr OR 3) (mem st2)\<rparr>))
      else Inr st)"

definition pt_index :: "u64 \<Rightarrow> nat \<Rightarrow> u64" where
  "pt_index virt sh = 8 * (drop_bit sh virt AND 511)"

text \<open>
  The body of the walk for the page of \<open>virt\<close>; \<open>nxt\<close> is the head of the list of entries
  still to be filled (\<^verbatim>\<open>next\<close>, 0 for \<^verbatim>\<open>NULL\<close>).
\<close>

definition map_page :: "u64 \<Rightarrow> u64 \<Rightarrow> loader \<Rightarrow> loader + u64 \<times> loader" where
  "map_page virt nxt st =
     (let p4 = pt st + pt_index virt 39 in
      case map_level (rd64 (mem st) p4 = 0) p4 st of Inl st' \<Rightarrow> Inl st' | Inr st1 \<Rightarrow>
      let p3 = (rd64 (mem st1) p4 AND NOT 4095) + pt_index virt 30 in
      case map_level (rd64 (mem st1) p3 = 0) p3 st1 of Inl st' \<Rightarrow> Inl st' | Inr st2 \<Rightarrow>
      let p2 = (rd64 (mem st2) p3 AND NOT 4095) + pt_index virt 21 in
      case map_level (rd64 (mem st2) p2 = 0 \<or> rd64 (mem st2) p2 AND 0x80 \<noteq> 0) p2 st2 of
        Inl st' \<Rightarrow> Inl st' | Inr st3 \<Rightarrow>
      let p1 = (rd64 (mem st3) p2 AND NOT 4095) + pt_index virt 12 in
      if rd64 (mem st3) p1 = 0 then Inr (p1, st3\<lparr>mem := wr64 p1 nxt (mem st3)\<rparr>)
      else Inr (nxt, st3))"

text \<open>
  \<^verbatim>\<open>for(virt &= ~4095, ...; virt < end; virt += 4096)\<close>. The loop need not stop (\<open>virt\<close>
  can wrap around below the bound \<open>vend\<close>), so it runs on fuel: \<open>None\<close> is fuel exhausted.
\<close>

fun map_walk :: "nat \<Rightarrow> u64 \<Rightarrow> u64 \<Rightarrow> u64 \<Rightarrow> loader \<Rightarrow> (loader + u64 \<times> loader) option" where
  "map_walk fuel virt vend nxt st =
     (if virt < vend then
        (case fuel of
           0 \<Rightarrow> None
         | Suc fuel' \<Rightarrow>
             (case map_page virt nxt st of
                Inl st' \<Rightarrow> Some (Inl st')
              | Inr (nxt', st') \<Rightarrow> map_walk fuel' (virt + 4096) vend nxt' st'))
      else Some (Inr (nxt, st)))"

declare map_walk.simps [simp del]

text \<open>
  \<^verbatim>\<open>for(end = ...; next; end -= 4096, next = ptr) { ptr = (uint64_t*)*next; *next = end | 3; }\<close>
\<close>

fun map_resolve :: "nat \<Rightarrow> u64 \<Rightarrow> u64 \<Rightarrow> loader \<Rightarrow> loader option" where
  "map_resolve fuel vend nxt st =
     (if nxt \<noteq> 0 then
        (case fuel of
           0 \<Rightarrow> None
         | Suc fuel' \<Rightarrow>
             map_resolve fuel' (vend - 4096) (rd64 (mem st) nxt)
               (st\<lparr>mem := wr64 nxt (vend OR 3) (mem st)\<rparr>))
      else Some st)"

declare map_resolve.simps [simp del]

text \<open>
  \<^verbatim>\<open>fw_map\<close>: the result is the returned \<^verbatim>\<open>int\<close> (as a truth value) and the state; \<open>None\<close>
  when the fuel does not suffice.
\<close>

definition fw_map :: "nat \<Rightarrow> u64 \<Rightarrow> u64 \<Rightarrow> u32 \<Rightarrow> loader \<Rightarrow> (bool \<times> loader) option" where
  "fw_map fuel phys virt sz st =
     (let vend = virt + ucast sz; orig = file_buf st in
      if pt st = 0 \<or> (drop_bit 48 virt \<noteq> 0 \<and> drop_bit 48 virt \<noteq> 0xffff) then Some (False, st)
      else
        let virt = virt AND NOT 4095; phys = phys AND NOT 4095 in
        case map_walk fuel virt vend 0 st of
          None \<Rightarrow> None
        | Some (Inl st') \<Rightarrow> Some (False, st')
        | Some (Inr (nxt, st1)) \<Rightarrow>
            (case map_resolve fuel
                    (((if phys = orig then file_buf st1 else phys) + ucast sz - 1) AND NOT 4095)
                    nxt st1 of
               None \<Rightarrow> None
             | Some st2 \<Rightarrow> Some (True, st2)))"

text \<open>
  \<^verbatim>\<open>efi_allocpages\<close> for \<^verbatim>\<open>AllocateAnyPages\<close> and for \<^verbatim>\<open>AllocateAddress\<close> (0: the firmware
  refused). The table of allocations to free later is not part of the model.
\<close>

definition efi_allocpages_any :: "loader \<Rightarrow> u64 \<times> loader" where
  "efi_allocpages_any st =
     (case efi_any st of [] \<Rightarrow> (0, st) | m # rest \<Rightarrow> (m, st\<lparr>efi_any := rest\<rparr>))"

definition efi_allocpages_address :: "u64 \<Rightarrow> u64 \<Rightarrow> loader \<Rightarrow> u64" where
  "efi_allocpages_address NoPages Memory st = (if efi_at st Memory NoPages then Memory else 0)"

text \<open>
  The scan of \<^verbatim>\<open>fw_loadseg\<close> over the memory map: at the first entry that holds \<open>vaddr\<close> the
  loop is left, with \<^verbatim>\<open>goto err\<close> (\<open>False\<close>) when that entry is not free or ends before
  the segment does. With no such entry the segment is loaded all the same.
\<close>

fun memmap_slot_ok :: "mmap_entry list \<Rightarrow> u64 \<Rightarrow> u32 \<Rightarrow> bool" where
  "memmap_slot_ok [] vaddr sz = True"
| "memmap_slot_ok (m # rest) vaddr sz =
     (if base_addr m \<le> vaddr \<and> base_addr m + length_m m > vaddr then
        \<not> (type_m m \<noteq> MULTIBOOT_MEMORY_AVAILABLE \<or>
           base_addr m + length_m m < (vaddr AND NOT 4095) + ucast sz)
      else memmap_slot_ok rest vaddr sz)"

definition TAGS_MAX :: u64 where
  "TAGS_MAX = 30"

text \<open>\<^verbatim>\<open>size = (memsz + (vaddr & 4095) + 4095) & ~4095\<close>, stored in a \<^verbatim>\<open>uint32_t\<close>.\<close>

definition seg_size :: "u32 \<Rightarrow> u64 \<Rightarrow> u32" where
  "seg_size memsz vaddr = ucast (ucast memsz + (vaddr AND 4095) + 4095 AND NOT (4095 :: u64))"

text \<open>
  The first part of \<^verbatim>\<open>fw_loadseg\<close>, which finds the memory for the segment: the result is
  the address \<open>buf\<close> to read it to, or \<open>None\<close> for \<^verbatim>\<open>goto err\<close>, and the state. The outer
  \<open>None\<close> is \<^verbatim>\<open>fw_map\<close> out of fuel.
\<close>

definition seg_place :: "nat \<Rightarrow> u64 \<Rightarrow> u32 \<Rightarrow> loader \<Rightarrow> (u64 option \<times> loader) option" where
  "seg_place fuel vaddr sz st =
     (if ST st then
        (if vaddr > ram st then
           (case efi_allocpages_any st of (buf, st1) \<Rightarrow>
              if buf = 0 then Some (None, st1)
              else (case fw_map fuel buf vaddr sz st1 of
                      None \<Rightarrow> None
                    | Some (ok, st2) \<Rightarrow> Some (if ok then Some buf else None, st2)))
         else
           (if efi_allocpages_address (ucast (drop_bit 12 sz)) (vaddr AND NOT 4095) st = 0
            then Some (None, st)
            else Some (Some vaddr, st)))
      else
        (if vaddr < 0x20000 + (TAGS_MAX + 2) * 4096 then Some (None, st)
         else if vaddr > ram st then
           (case fw_map fuel (file_buf st) vaddr sz st of
              None \<Rightarrow> None
            | Some (ok, st1) \<Rightarrow>
                if ok then Some (Some (file_buf st1), st1\<lparr>file_buf := file_buf st1 + ucast sz\<rparr>)
                else Some (None, st1))
         else
           (let top = (vaddr + ucast sz + 4095) AND NOT 4095;
                st1 = (if file_buf st < top then st\<lparr>file_buf := top\<rparr> else st)
            in if memmap_slot_ok (memmap st1) vaddr sz then Some (Some vaddr, st1)
               else Some (None, st1))))"

text \<open>
  \<^verbatim>\<open>fw_loadseg\<close>: the returned \<^verbatim>\<open>int\<close> (as a truth value) and the state. Once the memory is
  found, \<open>filesz\<close> bytes are read from the file offset \<open>offs\<close> and the rest up to \<open>memsz\<close> is
  zeroed. \<open>None\<close> when \<^verbatim>\<open>fw_map\<close> or \<^verbatim>\<open>fw_read\<close> does not return.
\<close>

definition fw_loadseg ::
  "nat \<Rightarrow> u32 \<Rightarrow> u32 \<Rightarrow> u64 \<Rightarrow> u32 \<Rightarrow> loader \<Rightarrow> (bool \<times> loader) option" where
  "fw_loadseg fuel offs filesz vaddr memsz st =
     (if memsz = 0 \<or> file_size st = 0 then Some (True, st)
      else
        case seg_place fuel vaddr (seg_size memsz vaddr) st of
          None \<Rightarrow> None
        | Some (None, st1) \<Rightarrow> Some (False, st1)
        | Some (Some buf, st1) \<Rightarrow>
            (case (if filesz \<noteq> 0 then fw_read fuel (ucast offs) (ucast filesz) buf st1
                   else Some (0, st1)) of
               None \<Rightarrow> None
             | Some (n, st2) \<Rightarrow>
                 Some (True,
                       if memsz > filesz
                       then st2\<lparr>mem := memset (buf + ucast filesz) 0 (memsz - filesz) (mem st2)\<rparr>
                       else st2)))"

section \<open>Linux kernels (\<^verbatim>\<open>fw_loadkernel\<close>)\<close>

text \<open>
  The Linux branch of \<^verbatim>\<open>fw_loadkernel\<close> works on \<^verbatim>\<open>kernel_buf\<close>, the first 4096 bytes of the
  kernel file, where the setup header \<^verbatim>\<open>linux_boot_t\<close> lies at offset 0x1f1, and on the zero
  page \<^verbatim>\<open>linux_boot_params_t\<close> in memory, which holds a copy of that header at the same
  offset. The offsets of the fields used: \<^verbatim>\<open>setup_sects\<close> 0x1f1, \<^verbatim>\<open>root_flags\<close> 0x1f2,
  \<^verbatim>\<open>vid_mode\<close> 0x1fa, \<^verbatim>\<open>root_dev\<close> 0x1fc, \<^verbatim>\<open>boot_flag\<close> 0x1fe, \<^verbatim>\<open>jump\<close> 0x200,
  \<^verbatim>\<open>header\<close> 0x202, \<^verbatim>\<open>version\<close> 0x206, \<^verbatim>\<open>type_of_loader\<close> 0x210, \<^verbatim>\<open>cmd_line_ptr\<close> 0x228,
  \<^verbatim>\<open>pref_address\<close> 0x258, \<^verbatim>\<open>init_size\<close> 0x260.
\<close>

text \<open>\<^verbatim>\<open>HDRSMAG\<close>, the bytes \<^verbatim>\<open>"HdrS"\<close> read as a little-endian 32-bit word.\<close>

definition HDRSMAG :: u32 where
  "HDRSMAG = 0x53726448"

definition MODE_LIN :: u8 where
  "MODE_LIN = 5"

definition sizeof_linux_boot_params :: u64 where
  "sizeof_linux_boot_params = 4096"

datatype kernel_error =
  Not_linux | Unsupported_protocol | Zero_page_allocation_error | Segment_not_loaded

text \<open>
  The command line up to the end of its line, as both loops over \<^verbatim>\<open>cmdline\<close> scan it.
\<close>

definition cmdline_text :: "string \<Rightarrow> string" where
  "cmdline_text c = takeWhile (\<lambda>ch. \<not> is_eol ch) c"

text \<open>
  Finding the zero page: a page already set is kept; on BIOS it is at 0x90000; on UEFI it
  is a page of \<^verbatim>\<open>efi_alloc\<close>, or else pages below the highest address allowed, or else any
  pages below 4 GiB. \<open>None\<close> is the exit with the zero page allocation error.
\<close>

definition linux_zero_page :: "loader \<Rightarrow> loader option" where
  "linux_zero_page st =
     (let st1 = (if zero_page st = 0 then
                   (if ST st then (case efi_alloc st of (page, s) \<Rightarrow> s\<lparr>zero_page := page\<rparr>)
                    else st\<lparr>zero_page := 0x90000\<rparr>)
                 else st)
      in if ST st1 \<and> zero_page st1 = 0 then
           (let i = (case cmdline (conf st1) of None \<Rightarrow> 0 | Some c \<Rightarrow> length (cmdline_text c))
                      + 4096 + 1;
                pages = (of_nat ((i + 4095) div 4096) :: u64)
            in case efi_max st1 0 pages of
                 Some page \<Rightarrow> Some (st1\<lparr>zero_page := page\<rparr>)
               | None \<Rightarrow>
                   (case efi_any st1 of
                      [] \<Rightarrow> None
                    | page # rest \<Rightarrow>
                        if drop_bit 32 page \<noteq> 0 then None
                        else Some (st1\<lparr>zero_page := page, efi_any := rest\<rparr>)))
         else Some st1)"

text \<open>
  Filling the zero page: it is cleared, the first \<open>0x11 + kernel_buf[0x201]\<close> bytes of the
  setup header are copied, four fields are set, and the command line, if there is one, is
  stored right behind the zero page.
\<close>

definition linux_fill_zero_page :: "loader \<Rightarrow> loader" where
  "linux_fill_zero_page st =
     (let kb = kernel_buf st; zp = zero_page st;
          m1 = memset zp 0 4096 (mem st);
          m2 = memcpy_in (zp + 0x1f1) (\<lambda>i. kb (0x1f1 + i)) (0x11 + ucast (kb 0x201)) m1;
          m3 = wr16 (zp + 0x1fc) 0x100 m2;
          m4 = wr16 (zp + 0x1f2) 1 m3;
          m5 = wr16 (zp + 0x1fa) 0xffff m4;
          m6 = m5(zp + 0x210 := 0xff);
          m7 = (case cmdline (conf st) of
                  None \<Rightarrow> m6
                | Some c \<Rightarrow>
                    let ptr = zp + sizeof_linux_boot_params
                    in put_bytes ptr (map of_char (take 32767 (cmdline_text c)) @ [0])
                         (wr32 (zp + 0x228) (ucast ptr) m6))
      in st\<lparr>mem := m7\<rparr>)"

text \<open>
  The Linux branch of \<^verbatim>\<open>fw_loadkernel\<close>, entered with the start of the kernel file in
  \<^verbatim>\<open>kernel_buf\<close>. \<open>Not_linux\<close> stands for the other branches (ELF, PE, unknown format),
  which are not modelled; the outer \<open>None\<close> is \<^verbatim>\<open>fw_loadseg\<close> not returning.
\<close>

definition fw_loadkernel_linux :: "nat \<Rightarrow> loader \<Rightarrow> (kernel_error + loader) option" where
  "fw_loadkernel_linux fuel st =
     (if \<not> (buf16 (kernel_buf st) 0x1fe = 0xAA55 \<and> buf32 (kernel_buf st) 0x202 = HDRSMAG)
      then Some (Inl Not_linux)
      else if buf16 (kernel_buf st) 0x206 < 0x20c \<or>
              drop_bit 32 (buf64 (kernel_buf st) 0x258 + file_size st) \<noteq> 0
      then Some (Inl Unsupported_protocol)
      else
        case linux_zero_page (st\<lparr>kernel_mode := MODE_LIN, conf := (conf st)\<lparr>smp := 0\<rparr>\<rparr>) of
          None \<Rightarrow> Some (Inl Zero_page_allocation_error)
        | Some st1 \<Rightarrow>
            let st2 = (if kernel_buf st1 0x1f1 = 0
                       then st1\<lparr>kernel_buf := (kernel_buf st1)(0x1f1 := 4)\<rparr> else st1);
                st3 = linux_fill_zero_page st2;
                kb = kernel_buf st3
            in case fw_loadseg fuel ((ucast (kb 0x1f1) + 1) * 512) (buf32 kb 0x260)
                      (buf64 kb 0x258) (buf32 kb 0x260) st3 of
                 None \<Rightarrow> None
               | Some (ok, st4) \<Rightarrow>
                   if ok then Some (Inr (st4\<lparr>kernel_entry := buf64 (kernel_buf st4) 0x258 + 512\<rparr>))
                   else Some (Inl Segment_not_loaded))"

section \<open>Reference notions and sample inputs\<close>

text \<open>One comparison of an entry with \<^verbatim>\<open>ram\<close>, as both map loops make it.\<close>

definition ram_step :: "u64 \<Rightarrow> mmap_entry \<Rightarrow> u64" where
  "ram_step r e = (if is_available e \<and> entry_top e > r then entry_top e else r)"






definition sample_vidmode :: vidmode where
  "sample_vidmode =
     \<lparr>framebuffer_addr = 0xE0000000, framebuffer_pitch = 4096, framebuffer_width = 1024,
      framebuffer_height = 768, framebuffer_bpp = 32,
      framebuffer_red_field_position = 16, framebuffer_red_mask_size = 8,
      framebuffer_green_field_position = 8, framebuffer_green_mask_size = 8,
      framebuffer_blue_field_position = 0, framebuffer_blue_mask_size = 8\<rparr>"

definition sample_config :: config where
  "sample_config =
     \<lparr>smp = 0, verbose = 0, fb_w = 0, fb_h = 0, fb_bpp = 0, fb_bg = 0, kernel = None,
      cmdline = None, menu = 0, splash = []\<rparr>"

text \<open>A sorted PC memory map: low memory, the EBDA, and RAM from 1 MiB to 128 MiB.\<close>

definition sample_e820 :: "mmap_entry list" where
  "sample_e820 =
     [\<lparr>base_addr = 0, length_m = 0x9FC00, type_m = 1, reserved_m = 0\<rparr>,
      \<lparr>base_addr = 0x9FC00, length_m = 0x400, type_m = 2, reserved_m = 0\<rparr>,
      \<lparr>base_addr = 0x100000, length_m = 0x7F00000, type_m = 1, reserved_m = 0\<rparr>]"

text \<open>An unsorted map: the EBDA is returned before low memory.\<close>

definition sample_e820_unsorted :: "mmap_entry list" where
  "sample_e820_unsorted =
     [\<lparr>base_addr = 0x9FC00, length_m = 0x400, type_m = 2, reserved_m = 0\<rparr>,
      \<lparr>base_addr = 0, length_m = 0x9FC00, type_m = 1, reserved_m = 0\<rparr>,
      \<lparr>base_addr = 0x100000, length_m = 0x7F00000, type_m = 1, reserved_m = 0\<rparr>]"

text \<open>A map whose only Available entry is returned after an entry of higher base.\<close>

definition sample_e820_late :: "mmap_entry list" where
  "sample_e820_late =
     [\<lparr>base_addr = 0xF0000000, length_m = 0x1000, type_m = 2, reserved_m = 0\<rparr>,
      \<lparr>base_addr = 0, length_m = 0x40000000, type_m = 1, reserved_m = 0\<rparr>]"

text \<open>A sorted map whose only Available entry comes first.\<close>

definition sample_e820_first :: "mmap_entry list" where
  "sample_e820_first =
     [\<lparr>base_addr = 0, length_m = 0x40000000, type_m = 1, reserved_m = 0\<rparr>,
      \<lparr>base_addr = 0xF0000000, length_m = 0x1000, type_m = 2, reserved_m = 0\<rparr>]"

text \<open>
  An EFI map: 16 MiB of conventional memory and, above it, 1 MiB of boot services data
  (\<^verbatim>\<open>EfiBootServicesData\<close> is 4).
\<close>

definition sample_efi_map :: "efi_memory_descriptor list" where
  "sample_efi_map =
     [\<lparr>Type = 7, PhysicalStart = 0, NumberOfPages = 0x1000\<rparr>,
      \<lparr>Type = 4, PhysicalStart = 0x1000000, NumberOfPages = 0x300\<rparr>]"





section \<open>Verified properties\<close>

subsection \<open>Configuration lines\<close>

lemma config_line_primary_skips:
  "memcmp0 s ''backup'' \<Longrightarrow> config_line 0 vid s st = (st, False)"
  by (simp add: config_line_def)

lemma config_line_backup_skips:
  "\<not> memcmp0 s ''backup'' \<Longrightarrow> config_line 1 vid s st = (st, False)"
  by (simp add: config_line_def)

lemma config_line_backup_prefix:
  assumes "\<not> memcmp0 d ''backup''"
  shows "config_line 1 vid (''backup'' @ d) st = config_line 0 vid d st"
proof -
  have w: "word_end (''backup'' @ d) = word_end d"
    by (simp add: word_end_def is_sep_def)
  have m: "memcmp0 (''backup'' @ d) ''backup''"
    by (simp add: memcmp0_def)
  have dr: "drop 6 (''backup'' @ d) = d"
    by simp
  show ?thesis
    unfolding config_line_def w dr using assms m by (simp add: Let_def)
qed

lemma module_line_backup_prefix:
  assumes "\<not> memcmp0 d ''backup''"
  shows "module_line 1 (''backup'' @ d) = module_line 0 d"
proof -
  have w: "word_end (''backup'' @ d) = word_end d"
    by (simp add: word_end_def is_sep_def)
  have m: "memcmp0 (''backup'' @ d) ''backup''"
    by (simp add: memcmp0_def)
  have dr: "drop 6 (''backup'' @ d) = d"
    by simp
  show ?thesis
    unfolding module_line_def w dr using assms m by (simp add: Let_def)
qed

lemma memcmp0_framebuffer:
  assumes "memcmp0 s ''framebuffer''"
  shows "\<not> memcmp0 s ''backup''" "\<not> memcmp0 s ''multicore''" "\<not> memcmp0 s ''menuentry''"
    "\<not> memcmp0 s ''verbose''"
proof -
  obtain r where s: "s = ''framebuffer'' @ r"
    using assms unfolding memcmp0_def by (metis append_take_drop_id)
  show "\<not> memcmp0 s ''backup''" "\<not> memcmp0 s ''multicore''" "\<not> memcmp0 s ''menuentry''"
    "\<not> memcmp0 s ''verbose''"
    by (simp_all add: s memcmp0_def)
qed

lemma config_line_framebuffer:
  assumes "memcmp0 s ''framebuffer''"
    and "c_lt (skip_sp (word_end s) (line_end (word_end s))) (line_end (word_end s))"
  shows "config_line 0 vid s st =
           (do_framebuffer vid (skip_sp (word_end s) (line_end (word_end s)))
              (line_end (word_end s)) st, False)"
  using assms memcmp0_framebuffer[OF assms(1)]
  by (simp add: config_line_def Let_def)

lemma module_line_primary_skips: "memcmp0 s ''backup'' \<Longrightarrow> module_line 0 s = []"
  by (simp add: module_line_def)

lemma module_line_backup_skips: "\<not> memcmp0 s ''backup'' \<Longrightarrow> module_line 1 s = []"
  by (simp add: module_line_def)

text \<open>
  C2 (amended). The prefix is the six characters \<^verbatim>\<open>backup\<close> written directly before the
  directive, as in \<^verbatim>\<open>backupkernel <path>\<close>. In primary mode a line that starts with
  \<^verbatim>\<open>backup\<close> has no effect, neither in \<^verbatim>\<open>fw_loadconfig\<close> nor in \<^verbatim>\<open>fw_loadmodules\<close>; in
  backup mode a line that does not start with it has no effect, and a line made of
  \<^verbatim>\<open>backup\<close> followed at once by the text \<open>s\<close> is processed exactly as \<open>s\<close> is in primary
  mode.
\<close>
theorem backup_prefix_selects_lines:
  "(memcmp0 s ''backup'' \<longrightarrow>
      config_line 0 vid s st = (st, False) \<and> module_line 0 s = []) \<and>
   (\<not> memcmp0 s ''backup'' \<longrightarrow>
      config_line 1 vid s st = (st, False) \<and> module_line 1 s = [] \<and>
      config_line 1 vid (''backup'' @ s) st = config_line 0 vid s st \<and>
      module_line 1 (''backup'' @ s) = module_line 0 s)"
proof (intro conjI impI)
  assume "memcmp0 s ''backup''"
  then show "config_line 0 vid s st = (st, False)" "module_line 0 s = []"
    by (rule config_line_primary_skips, rule module_line_primary_skips)
next
  assume "\<not> memcmp0 s ''backup''"
  then show "config_line 1 vid s st = (st, False)" "module_line 1 s = []"
    "config_line 1 vid (''backup'' @ s) st = config_line 0 vid s st"
    "module_line 1 (''backup'' @ s) = module_line 0 s"
    by (rule config_line_backup_skips, rule module_line_backup_skips,
        rule config_line_backup_prefix, rule module_line_backup_prefix)
qed

theorem backup_prefix_selects_lines_witness:
  "memcmp0 ''backupkernel /k'' ''backup'' \<and>
   config_line 0 sample_vidmode ''backupkernel /k'' sample_config = (sample_config, False) \<and>
   module_line 0 ''backupmodule /m'' = [] \<and>
   \<not> memcmp0 ''kernel /k'' ''backup'' \<and>
   config_line 1 sample_vidmode ''kernel /k'' sample_config = (sample_config, False) \<and>
   module_line 1 ''module /m'' = [] \<and>
   config_line 1 sample_vidmode ''backupkernel /k'' sample_config =
     (sample_config\<lparr>kernel := Some ''/k''\<rparr>, False) \<and>
   module_line 1 ''backupmodule /m'' = [''/m'']"
proof -
  have h1: "memcmp0 ''backupkernel /k'' ''backup''" by (simp add: memcmp0_def)
  have h1': "memcmp0 ''backupmodule /m'' ''backup''" by (simp add: memcmp0_def)
  have h2: "\<not> memcmp0 ''kernel /k'' ''backup''" by (simp add: memcmp0_def)
  have h2': "\<not> memcmp0 ''module /m'' ''backup''" by (simp add: memcmp0_def)
  have k: "config_line 0 sample_vidmode ''kernel /k'' sample_config =
     (sample_config\<lparr>kernel := Some ''/k''\<rparr>, False)"
    by (simp add: config_line_def memcmp0_def word_end_def line_end_def is_sep_def is_eol_def
        c_lt_def do_kernel_def Let_def)
  have m: "module_line 0 ''module /m'' = [''/m'']"
    by (simp add: module_line_def memcmp0_def word_end_def line_end_def is_sep_def is_eol_def
        c_lt_def Let_def)
  show ?thesis
    using backup_prefix_selects_lines[of "''backupkernel /k''" sample_vidmode sample_config]
      backup_prefix_selects_lines[of "''backupmodule /m''" sample_vidmode sample_config]
      backup_prefix_selects_lines[of "''kernel /k''" sample_vidmode sample_config]
      backup_prefix_selects_lines[of "''module /m''" sample_vidmode sample_config]
      h1 h1' h2 h2' k m
    by simp
qed

text \<open>
  C2 as stated fails: with a space after \<^verbatim>\<open>backup\<close>, the lines \<^verbatim>\<open>backup kernel /k\<close> and
  \<^verbatim>\<open>backup module /m\<close> do nothing in backup mode.
\<close>

theorem backup_space_kernel_counterexample:
  "kernel (fw_loadconfig 0 sample_vidmode ''kernel /k'' sample_config) = Some ''/k'' \<and>
   kernel (fw_loadconfig 1 sample_vidmode ''backup kernel /k'' sample_config) = None \<and>
   module_loop 0 ''module /m'' = [''/m''] \<and>
   module_loop 1 ''backup module /m'' = []"
  by (simp add: fw_loadconfig_def config_loop.simps module_loop.simps module_line_def
      config_line_def memcmp0_def line_start_def next_line_def
      word_end_def line_end_def is_ws_def is_sep_def is_eol_def c_lt_def do_kernel_def Let_def
      sample_config_def)

text \<open>
  C10. On a \<^verbatim>\<open>framebuffer\<close> line with an argument, when one of the three parsed values is out
  of range (width outside 320..65536, height outside 200..65536, bits per pixel outside
  15..32), the requested width, height and depth are all set to those of the current video
  mode; nothing else changes and parsing goes on with the next line. The same holds in
  backup mode for the line prefixed with \<^verbatim>\<open>backup\<close>.
\<close>
theorem framebuffer_out_of_range_resets:
  assumes "memcmp0 s ''framebuffer''"
    and "c_lt (skip_sp (word_end s) (line_end (word_end s))) (line_end (word_end s))"
    and "framebuffer_args (skip_sp (word_end s) (line_end (word_end s))) (line_end (word_end s))
           = (w, h, b)"
    and "unat w \<notin> {320..65536} \<or> unat h \<notin> {200..65536} \<or> unat b \<notin> {15..32}"
  shows "config_line 0 vid s st =
           (st\<lparr>fb_w := framebuffer_width vid, fb_h := framebuffer_height vid,
               fb_bpp := ucast (framebuffer_bpp vid)\<rparr>, False) \<and>
         config_line 1 vid (''backup'' @ s) st =
           (st\<lparr>fb_w := framebuffer_width vid, fb_h := framebuffer_height vid,
               fb_bpp := ucast (framebuffer_bpp vid)\<rparr>, False)"
proof -
  have oor: "fb_out_of_range (w, h, b)"
    using assms(4) by (auto simp: fb_out_of_range_def word_less_nat_alt)
  have "config_line 0 vid s st =
           (st\<lparr>fb_w := framebuffer_width vid, fb_h := framebuffer_height vid,
               fb_bpp := ucast (framebuffer_bpp vid)\<rparr>, False)"
    using oor by (simp add: config_line_framebuffer[OF assms(1,2)] do_framebuffer_def assms(3))
  then show ?thesis
    using config_line_backup_prefix[OF memcmp0_framebuffer(1)[OF assms(1)]] by simp
qed

theorem framebuffer_out_of_range_resets_witness:
  "memcmp0 ''framebuffer 100 600 32'' ''framebuffer'' \<and>
   framebuffer_args ''100 600 32'' [] = (100, 600, 32) \<and>
   unat (100 :: u32) \<notin> {320..65536} \<and>
   config_line 0 sample_vidmode ''framebuffer 100 600 32'' sample_config =
     (sample_config\<lparr>fb_w := 1024, fb_h := 768, fb_bpp := 32\<rparr>, False)"
proof -
  let ?L = "''framebuffer 100 600 32''"
  have h1: "memcmp0 ?L ''framebuffer''" by (simp add: memcmp0_def)
  have h2: "c_lt (skip_sp (word_end ?L) (line_end (word_end ?L))) (line_end (word_end ?L))"
    by (simp add: word_end_def line_end_def is_sep_def is_eol_def c_lt_def)
  have h3': "framebuffer_args ''100 600 32'' [] = (100, 600, 32)"
    by (simp add: framebuffer_args_def getint_def is_digit_def c_lt_def)
  have h3: "framebuffer_args (skip_sp (word_end ?L) (line_end (word_end ?L)))
      (line_end (word_end ?L)) = (100, 600, 32)"
    using h3' by (simp add: word_end_def line_end_def is_sep_def is_eol_def c_lt_def)
  have h4: "unat (100 :: u32) \<notin> {320..65536} \<or> unat (600 :: u32) \<notin> {200..65536}
      \<or> unat (32 :: u32) \<notin> {15..32}" by simp
  show ?thesis
    using framebuffer_out_of_range_resets[OF h1 h2 h3 h4, of sample_vidmode sample_config] h1 h3'
    by (simp add: sample_vidmode_def)
qed

subsection \<open>Top of RAM\<close>

lemma mset_sift_down: "j < length dst \<Longrightarrow> mset (sift_down j dst) = mset dst"
proof (induction j dst rule: sift_down.induct)
  case (1 dst)
  then show ?case by simp
next
  case (2 j dst)
  then show ?case by (auto simp: mset_swap)
qed

lemma nth_sift_down_above: "j < m \<Longrightarrow> sift_down j dst ! m = dst ! m"
  by (induction j dst rule: sift_down.induct) auto

lemma sift_down_no_swap:
  "0 < j \<Longrightarrow> base_addr (dst ! (j - 1)) \<le> base_addr (dst ! j) \<Longrightarrow> sift_down j dst = dst"
  by (cases j) (auto simp: not_less)

lemma drop_sift_down: "j < length dst \<Longrightarrow> drop (Suc j) (sift_down j dst) = drop (Suc j) dst"
  by (rule nth_equalityI) (auto simp: length_sift_down nth_sift_down_above)

lemma sort_inv_step:
  assumes "sort_inv es i dst" "i < length es"
  shows "sort_inv es (Suc i) (sift_down i dst)"
proof -
  have len: "length dst = length es" and dr: "drop i dst = drop i es"
    and ms: "mset (take i dst) = mset (take i es)"
    using assms(1) by (auto simp: sort_inv_def)
  have i: "i < length dst" using assms(2) len by simp
  have d1: "drop (Suc i) (sift_down i dst) = drop (Suc i) dst" using i by (rule drop_sift_down)
  have "drop (Suc i) dst = drop (Suc i) es"
    using dr by (metis drop_drop plus_1_eq_Suc)
  then have d2: "drop (Suc i) (sift_down i dst) = drop (Suc i) es" using d1 by simp
  have "mset (take (Suc i) (sift_down i dst)) + mset (drop (Suc i) (sift_down i dst))
      = mset (sift_down i dst)"
    by (metis append_take_drop_id mset_append)
  also have "\<dots> = mset dst" using i by (rule mset_sift_down)
  also have "\<dots> = mset (take (Suc i) dst) + mset (drop (Suc i) dst)"
    by (metis append_take_drop_id mset_append)
  finally have m1: "mset (take (Suc i) (sift_down i dst)) = mset (take (Suc i) dst)"
    using d1 by simp
  have "dst ! i = es ! i"
    using dr i assms(2) by (metis Cons_nth_drop_Suc list.inject)
  then have "mset (take (Suc i) dst) = mset (take (Suc i) es)"
    using ms i assms(2) by (simp add: take_Suc_conv_app_nth)
  then show ?thesis using m1 d2 len by (simp add: sort_inv_def length_sift_down)
qed

lemma sort_map_from_bounds:
  assumes "sort_inv es i dst"
  shows "r \<le> snd (sort_map_from i dst r) \<and>
         snd (sort_map_from i dst r) \<in> insert r (entry_top ` set (filter is_available es))"
  using assms
proof (induction "length dst - i" arbitrary: i dst r)
  case 0
  then show ?case by (subst (1 2) sort_map_from.simps) simp
next
  case (Suc n)
  then have lt: "i < length dst" by simp
  have len: "length dst = length es" using Suc.prems by (simp add: sort_inv_def)
  let ?d = "sift_down i dst"
  let ?r = "ram_step r (?d ! i)"
  have step: "sort_map_from i dst r = sort_map_from (Suc i) ?d ?r"
    using lt
    by (subst sort_map_from.simps)
       (simp add: Let_def ram_step_def is_available_def entry_top_def)
  have inv': "sort_inv es (Suc i) ?d" using Suc.prems lt len by (simp add: sort_inv_step)
  have n: "n = length ?d - Suc i" using Suc.hyps(2) by (simp add: length_sift_down)
  have ih: "?r \<le> snd (sort_map_from (Suc i) ?d ?r) \<and>
         snd (sort_map_from (Suc i) ?d ?r) \<in> insert ?r (entry_top ` set (filter is_available es))"
    using Suc.hyps(1)[OF n inv'] .
  have "mset ?d = mset dst" using lt by (rule mset_sift_down)
  moreover have "mset dst = mset es"
    using Suc.prems
    by (metis append_take_drop_id mset_append sort_inv_def)
  ultimately have "set ?d = set es" by (metis mset_eq_setD)
  then have mem: "?d ! i \<in> set es" using lt by (metis length_sift_down nth_mem)
  have r1: "r \<le> ?r" by (auto simp: ram_step_def)
  have r2: "?r \<in> insert r (entry_top ` set (filter is_available es))"
    using mem by (auto simp: ram_step_def)
  show ?case using ih r1 r2 by (auto simp: step)
qed

lemma sort_map_from_reaches:
  assumes "sort_inv es i dst" "i \<le> k" "0 < k" "k < length es"
    and "\<forall>j<k. base_addr (es ! j) \<le> base_addr (es ! k)"
    and "is_available (es ! k)"
  shows "entry_top (es ! k) \<le> snd (sort_map_from i dst r)"
  using assms(1,2)
proof (induction "k - i" arbitrary: i dst r)
  case 0
  then have ik: "i = k" by simp
  have len: "length dst = length es" and dr: "drop k dst = drop k es"
    and ms: "mset (take k dst) = mset (take k es)"
    using 0 ik by (auto simp: sort_inv_def)
  have lt: "k < length dst" using assms(4) len by simp
  have dk: "dst ! k = es ! k" using dr lt assms(4) by (metis Cons_nth_drop_Suc list.inject)
  have "dst ! (k - 1) \<in> set (take k dst)"
    using assms(3) lt by (metis One_nat_def Suc_pred in_set_conv_nth length_take lessI
        less_imp_le_nat min.absorb2 nth_take)
  then have "dst ! (k - 1) \<in> set (take k es)" using ms by (metis mset_eq_setD)
  then obtain j where "j < k" "dst ! (k - 1) = es ! j"
    by (auto simp: in_set_conv_nth)
  then have "base_addr (dst ! (k - 1)) \<le> base_addr (dst ! k)" using assms(5) dk by simp
  then have sd: "sift_down k dst = dst" using assms(3) by (simp add: sift_down_no_swap)
  let ?r = "ram_step r (dst ! k)"
  have step: "sort_map_from k dst r = sort_map_from (Suc k) dst ?r"
    using lt
    by (subst sort_map_from.simps)
       (simp add: sd Let_def ram_step_def is_available_def entry_top_def)
  have inv': "sort_inv es (Suc k) dst"
    using sort_inv_step[of es k dst] 0 ik assms(4) sd by simp
  have "?r \<le> snd (sort_map_from (Suc k) dst ?r)"
    using sort_map_from_bounds[OF inv'] by simp
  moreover have "entry_top (es ! k) \<le> ?r"
    using assms(6) dk by (simp add: ram_step_def not_less)
  ultimately show ?case using ik step by simp
next
  case (Suc n)
  then have lt: "i < k" by simp
  have len: "length dst = length es" using Suc.prems by (simp add: sort_inv_def)
  have ilt: "i < length dst" using lt assms(4) len by simp
  let ?d = "sift_down i dst"
  let ?r = "ram_step r (?d ! i)"
  have step: "sort_map_from i dst r = sort_map_from (Suc i) ?d ?r"
    using ilt
    by (subst sort_map_from.simps)
       (simp add: Let_def ram_step_def is_available_def entry_top_def)
  have inv': "sort_inv es (Suc i) ?d" using Suc.prems ilt len by (simp add: sort_inv_step)
  have "n = k - Suc i" using Suc.hyps(2) by simp
  then have "entry_top (es ! k) \<le> snd (sort_map_from (Suc i) ?d ?r)"
    using Suc.hyps(1) inv' lt by simp
  then show ?case by (simp add: step)
qed

lemma sort_inv_start: "sort_inv es 1 es"
  by (simp add: sort_inv_def)

lemma sort_map_top:
  assumes "(\<forall>e \<in> set es. \<not> is_available e) \<or>
     (\<exists>k. 0 < k \<and> k < length es \<and> is_available (es ! k) \<and>
          (\<forall>j<k. base_addr (es ! j) \<le> base_addr (es ! k)) \<and>
          (\<forall>e \<in> set es. is_available e \<longrightarrow> entry_top e \<le> entry_top (es ! k)))"
  shows "snd (sort_map es r) = Max (insert r (entry_top ` set (filter is_available es)))"
proof -
  let ?S = "insert r (entry_top ` set (filter is_available es))"
  let ?x = "snd (sort_map es r)"
  have b: "r \<le> ?x" "?x \<in> ?S"
    using sort_map_from_bounds[OF sort_inv_start, where r = r]
    by (simp_all add: sort_map_def)
  have fin: "finite ?S" by simp
  have "\<forall>y \<in> ?S. y \<le> ?x"
  proof
    fix y assume y: "y \<in> ?S"
    show "y \<le> ?x"
    proof (cases "y = r")
      case True
      then show ?thesis using b(1) by simp
    next
      case False
      then obtain e where e: "e \<in> set es" "is_available e" "y = entry_top e" using y by auto
      then obtain k where k: "0 < k" "k < length es" "is_available (es ! k)"
          "\<forall>j<k. base_addr (es ! j) \<le> base_addr (es ! k)"
          "\<forall>e \<in> set es. is_available e \<longrightarrow> entry_top e \<le> entry_top (es ! k)"
        using assms by auto
      have "entry_top (es ! k) \<le> ?x"
        using sort_map_from_reaches[OF sort_inv_start _ k(1) k(2) k(4) k(3), where r = r] k(1)
        by (simp add: sort_map_def)
      then show ?thesis using e k(5) by (metis order_trans)
    qed
  qed
  then show ?thesis using b(2) fin by (metis Max_eqI)
qed

lemma foldl_ram_step:
  "foldl ram_step r es = Max (insert r (entry_top ` set (filter is_available es)))"
proof (induction es arbitrary: r)
  case Nil
  then show ?case by simp
next
  case (Cons e es)
  show ?case
  proof (cases "is_available e")
    case True
    have "Max (insert (ram_step r e) (entry_top ` set (filter is_available es)))
        = Max (insert r (insert (entry_top e) (entry_top ` set (filter is_available es))))"
      using True
      by (cases "entry_top ` set (filter is_available es) = {}")
         (auto simp: ram_step_def max_def Max_insert)
    then show ?thesis using True Cons by simp
  next
    case False
    then show ?thesis using Cons by (simp add: ram_step_def)
  qed
qed

lemma efi_top_loop_eq:
  "efi_top_loop ds r = foldl ram_step r (map efi_to_mmap (filter (\<lambda>d. Type d = EfiConventionalMemory) ds))"
  by (induction ds arbitrary: r)
     (auto simp: ram_step_def efi_to_mmap_def is_available_def entry_top_def Let_def)

lemma filter_conv_available:
  "filter is_available (map efi_to_mmap (filter (\<lambda>d. Type d = EfiConventionalMemory) ds))
   = map efi_to_mmap (filter (\<lambda>d. Type d = EfiConventionalMemory) ds)"
  by (induction ds) (auto simp: is_available_def efi_to_mmap_def)

text \<open>
  C7 (amended). After the memory-map step of setup, \<^verbatim>\<open>ram\<close> is the larger of the value it
  had on entry (0 on the first pass, the value of the earlier pass when setup runs again)
  and a largest end of memory, rounded down to 2 MiB. On UEFI that end is the largest
  \<open>PhysicalStart + NumberOfPages * 4096\<close> over the descriptors of type
  \<^verbatim>\<open>EfiConventionalMemory\<close> only. On BIOS it is the largest \<open>base + length\<close> over all Available
  entries, provided there is no Available entry at all, or an Available entry that reaches
  highest is not the first entry the firmware returned and has a base address at least as
  high as that of every entry returned before it. With \<^verbatim>\<open>ram\<close> 0 on entry the BIOS value is
  the one the spec names.
\<close>

theorem ram_is_top:
  "(((\<forall>e \<in> set es. \<not> is_available e) \<or>
     (\<exists>k. 0 < k \<and> k < length es \<and> is_available (es ! k) \<and>
          (\<forall>j<k. base_addr (es ! j) \<le> base_addr (es ! k)) \<and>
          (\<forall>e \<in> set es. is_available e \<longrightarrow> entry_top e \<le> entry_top (es ! k))))
    \<longrightarrow> fw_loadsetup_ram (Bios_map es) ram0 = spec_top_from ram0 es) \<and>
   fw_loadsetup_ram (Efi_map (Some ds)) ram0 =
     spec_top_from ram0 (map efi_to_mmap (filter (\<lambda>d. Type d = EfiConventionalMemory) ds)) \<and>
   spec_top_from 0 es = spec_top_of_ram es"
proof (intro conjI impI)
  assume "(\<forall>e \<in> set es. \<not> is_available e) \<or>
     (\<exists>k. 0 < k \<and> k < length es \<and> is_available (es ! k) \<and>
          (\<forall>j<k. base_addr (es ! j) \<le> base_addr (es ! k)) \<and>
          (\<forall>e \<in> set es. is_available e \<longrightarrow> entry_top e \<le> entry_top (es ! k)))"
  then have "snd (sort_map es ram0) = Max (insert ram0 (entry_top ` set (filter is_available es)))"
    by (rule sort_map_top)
  then show "fw_loadsetup_ram (Bios_map es) ram0 = spec_top_from ram0 es"
    by (simp add: fw_loadsetup_ram_def spec_top_from_def)
next
  show "fw_loadsetup_ram (Efi_map (Some ds)) ram0 =
     spec_top_from ram0 (map efi_to_mmap (filter (\<lambda>d. Type d = EfiConventionalMemory) ds))"
    by (simp add: fw_loadsetup_ram_def efi_memmap_null_def efi_top_loop_eq foldl_ram_step
        spec_top_from_def filter_conv_available)
next
  show "spec_top_from 0 es = spec_top_of_ram es"
    by (simp add: spec_top_from_def spec_top_of_ram_def)
qed

theorem ram_is_top_witness:
  "(\<exists>k. 0 < k \<and> k < length sample_e820_unsorted \<and> is_available (sample_e820_unsorted ! k) \<and>
        (\<forall>j<k. base_addr (sample_e820_unsorted ! j) \<le> base_addr (sample_e820_unsorted ! k)) \<and>
        (\<forall>e \<in> set sample_e820_unsorted.
            is_available e \<longrightarrow> entry_top e \<le> entry_top (sample_e820_unsorted ! k))) \<and>
   fw_loadsetup_ram (Bios_map sample_e820_unsorted) 0 = 0x8000000 \<and>
   spec_top_of_ram sample_e820_unsorted = 0x8000000 \<and>
   fw_loadsetup_ram (Efi_map (Some sample_efi_map)) 0 = 0x1000000"
proof -
  have "0 < (2::nat) \<and> 2 < length sample_e820_unsorted \<and> is_available (sample_e820_unsorted ! 2) \<and>
        (\<forall>j<2. base_addr (sample_e820_unsorted ! j) \<le> base_addr (sample_e820_unsorted ! 2)) \<and>
        (\<forall>e \<in> set sample_e820_unsorted.
            is_available e \<longrightarrow> entry_top e \<le> entry_top (sample_e820_unsorted ! 2))"
    by (simp add: sample_e820_unsorted_def is_available_def entry_top_def
        MULTIBOOT_MEMORY_AVAILABLE_def less_2_cases_iff)
  then have h: "\<exists>k. 0 < k \<and> k < length sample_e820_unsorted \<and>
        is_available (sample_e820_unsorted ! k) \<and>
        (\<forall>j<k. base_addr (sample_e820_unsorted ! j) \<le> base_addr (sample_e820_unsorted ! k)) \<and>
        (\<forall>e \<in> set sample_e820_unsorted.
            is_available e \<longrightarrow> entry_top e \<le> entry_top (sample_e820_unsorted ! k))"
    by blast
  have v: "spec_top_of_ram sample_e820_unsorted = 0x8000000"
    by (simp add: spec_top_of_ram_def sample_e820_unsorted_def is_available_def entry_top_def
        MULTIBOOT_MEMORY_AVAILABLE_def)
  have u: "spec_top_from 0 (map efi_to_mmap
      (filter (\<lambda>d. Type d = EfiConventionalMemory) sample_efi_map)) = 0x1000000"
    by (simp add: spec_top_from_def sample_efi_map_def efi_to_mmap_def EfiConventionalMemory_def
        is_available_def entry_top_def MULTIBOOT_MEMORY_AVAILABLE_def)
  show ?thesis
    using ram_is_top[of sample_e820_unsorted 0 sample_efi_map] h v u by simp
qed

text \<open>
  C7 as stated fails. On BIOS the entry at index 0 is never compared, so a map whose only
  Available entry comes first leaves \<^verbatim>\<open>ram\<close> at 0, and so does a map whose Available entry
  is returned after an entry of higher base (it is moved down before the comparison). On
  UEFI an Available entry that is not conventional memory (here boot services data) does
  not count. And a value of \<^verbatim>\<open>ram\<close> left by an earlier pass is kept when it is larger.
\<close>

theorem ram_is_top_counterexample:
  "fw_loadsetup_ram (Bios_map sample_e820_first) 0 = 0 \<and>
   spec_top_of_ram sample_e820_first = 0x40000000 \<and>
   fw_loadsetup_ram (Bios_map sample_e820_late) 0 = 0 \<and>
   spec_top_of_ram sample_e820_late = 0x40000000 \<and>
   fw_loadsetup_ram (Efi_map (Some sample_efi_map)) 0 = 0x1000000 \<and>
   spec_top_of_ram (map efi_to_mmap sample_efi_map) = 0x1200000 \<and>
   fw_loadsetup_ram (Bios_map sample_e820) 0x10000000 = 0x10000000 \<and>
   spec_top_of_ram sample_e820 = 0x8000000"
  by (simp add: fw_loadsetup_ram_def sort_map_def sort_map_from.simps sample_e820_first_def
      sample_e820_late_def sample_e820_def
      sample_efi_map_def efi_memmap_null_def efi_to_mmap_def EfiConventionalMemory_def
      MULTIBOOT_MEMORY_AVAILABLE_def spec_top_of_ram_def is_available_def entry_top_def)

subsection \<open>Segments in low memory\<close>
















end
